theory Spec2Isabelle
  imports Complex_Main "HOL-Library.AList" "HOL-Library.Sublist"
begin

section \<open>Values: float64 cells of a pandas Series\<close>

text \<open>
  Every number the dashboard computes with is a float64 held in a pandas Series or a numpy
  scalar. The model keeps the four kinds of value that decide the control flow and the
  results of \<^verbatim>\<open>dashboard.py\<close>: a finite number, the two infinities and NaN (the
  "undefined" value of pandas). A finite double is idealised as a real number: rounding,
  overflow and the sign of zero are not modelled (a zero divisor is taken as +0).
\<close>

datatype fl = Fin real | PInf | NInf | NaN

fun is_fin :: "fl \<Rightarrow> bool" where
  "is_fin (Fin r) = True"
| "is_fin PInf = False"
| "is_fin NInf = False"
| "is_fin NaN = False"

fun the_fin :: "fl \<Rightarrow> real" where
  "the_fin (Fin r) = r"
| "the_fin PInf = 0"
| "the_fin NInf = 0"
| "the_fin NaN = 0"

text \<open>A value is defined when it is not NaN (pandas \<^verbatim>\<open>notna\<close>).\<close>

fun defined :: "fl \<Rightarrow> bool" where
  "defined NaN = False"
| "defined (Fin r) = True"
| "defined PInf = True"
| "defined NInf = True"

fun fneg :: "fl \<Rightarrow> fl" where
  "fneg (Fin r) = Fin (- r)"
| "fneg PInf = NInf"
| "fneg NInf = PInf"
| "fneg NaN = NaN"

fun fadd :: "fl \<Rightarrow> fl \<Rightarrow> fl" where
  "fadd NaN y = NaN"
| "fadd x NaN = NaN"
| "fadd (Fin a) (Fin b) = Fin (a + b)"
| "fadd (Fin a) PInf = PInf"
| "fadd (Fin a) NInf = NInf"
| "fadd PInf (Fin b) = PInf"
| "fadd NInf (Fin b) = NInf"
| "fadd PInf PInf = PInf"
| "fadd NInf NInf = NInf"
| "fadd PInf NInf = NaN"
| "fadd NInf PInf = NaN"

definition fsub :: "fl \<Rightarrow> fl \<Rightarrow> fl" where
  "fsub x y = fadd x (fneg y)"

text \<open>The sign of an infinite product or quotient: \<open>True\<close> for a negative operand.\<close>

fun inf_of_sign :: "bool \<Rightarrow> fl" where
  "inf_of_sign neg = (if neg then NInf else PInf)"

fun fmul :: "fl \<Rightarrow> fl \<Rightarrow> fl" where
  "fmul NaN y = NaN"
| "fmul x NaN = NaN"
| "fmul (Fin a) (Fin b) = Fin (a * b)"
| "fmul (Fin a) PInf = (if a = 0 then NaN else inf_of_sign (a < 0))"
| "fmul (Fin a) NInf = (if a = 0 then NaN else inf_of_sign (0 < a))"
| "fmul PInf (Fin b) = (if b = 0 then NaN else inf_of_sign (b < 0))"
| "fmul NInf (Fin b) = (if b = 0 then NaN else inf_of_sign (0 < b))"
| "fmul PInf PInf = PInf"
| "fmul NInf NInf = PInf"
| "fmul PInf NInf = NInf"
| "fmul NInf PInf = NInf"

text \<open>
  Division of numpy float64 values never raises: a zero divisor gives an infinity, or NaN
  for \<open>0 / 0\<close>.
\<close>

fun fdiv :: "fl \<Rightarrow> fl \<Rightarrow> fl" where
  "fdiv NaN y = NaN"
| "fdiv x NaN = NaN"
| "fdiv (Fin a) (Fin b) =
     (if b = 0 then (if a = 0 then NaN else inf_of_sign (a < 0)) else Fin (a / b))"
| "fdiv (Fin a) PInf = Fin 0"
| "fdiv (Fin a) NInf = Fin 0"
| "fdiv PInf (Fin b) = inf_of_sign (b < 0)"
| "fdiv NInf (Fin b) = inf_of_sign (0 \<le> b)"
| "fdiv PInf PInf = NaN"
| "fdiv NInf NInf = NaN"
| "fdiv PInf NInf = NaN"
| "fdiv NInf PInf = NaN"

text \<open>Comparisons with NaN are false.\<close>

fun flt :: "fl \<Rightarrow> fl \<Rightarrow> bool" where
  "flt NaN y = False"
| "flt x NaN = False"
| "flt (Fin a) (Fin b) = (a < b)"
| "flt (Fin a) PInf = True"
| "flt (Fin a) NInf = False"
| "flt PInf y = False"
| "flt NInf (Fin b) = True"
| "flt NInf PInf = True"
| "flt NInf NInf = False"

definition fgt :: "fl \<Rightarrow> fl \<Rightarrow> bool" where
  "fgt x y = flt y x"

section \<open>Series operations used by the indicator code\<close>

text \<open>
  \<^verbatim>\<open>Series.rolling(window=w).mean()\<close>: the default \<^verbatim>\<open>min_periods\<close> is the window, so
  the value at index \<open>i\<close> is NaN until \<open>w\<close> observations end at \<open>i\<close>, and NaN whenever
  one of them is NaN (pandas turns an infinity into NaN before it averages); a window of
  size 0 holds no observation and gives NaN.
\<close>

definition window_at :: "nat \<Rightarrow> 'a list \<Rightarrow> nat \<Rightarrow> 'a list" where
  "window_at w xs i = take w (drop (Suc i - w) xs)"

definition mean :: "real list \<Rightarrow> real" where
  "mean rs = sum_list rs / real (length rs)"

definition rolling_mean_at :: "nat \<Rightarrow> fl list \<Rightarrow> nat \<Rightarrow> fl" where
  "rolling_mean_at w xs i =
     (if Suc i < w \<or> w = 0 then NaN
      else if list_all is_fin (window_at w xs i)
           then Fin (mean (map the_fin (window_at w xs i)))
           else NaN)"

definition rolling_mean :: "nat \<Rightarrow> fl list \<Rightarrow> fl list" where
  "rolling_mean w xs = map (rolling_mean_at w xs) [0..<length xs]"

text \<open>
  \<^verbatim>\<open>Series.diff()\<close>: the difference to the previous element; the first element has no
  predecessor and is NaN.
\<close>

definition diff :: "fl list \<Rightarrow> fl list" where
  "diff xs = map (\<lambda>i. if i = 0 then NaN else fsub (xs ! i) (xs ! (i - 1))) [0..<length xs]"

text \<open>
  \<^verbatim>\<open>Series.where(cond, other)\<close> keeps a value where the condition holds and puts
  \<open>other\<close> everywhere else, also where the value is NaN (a comparison with NaN is false).
\<close>

definition series_where :: "fl list \<Rightarrow> bool list \<Rightarrow> fl \<Rightarrow> fl list" where
  "series_where xs cond other = map2 (\<lambda>x c. if c then x else other) xs cond"

section \<open>The indicator computations (lines 71 to 79)\<close>

text \<open>
  \<^verbatim>\<open>
  hist_data['SMA_20'] = hist_data['Close'].rolling(window=20).mean()
  hist_data['SMA_50'] = hist_data['Close'].rolling(window=50).mean()
  delta = hist_data['Close'].diff()
  gain = (delta.where(delta > 0, 0)).rolling(window=14).mean()
  loss = (-delta.where(delta < 0, 0)).rolling(window=14).mean()
  rs = gain / loss
  hist_data['RSI'] = 100 - (100 / (1 + rs))
  \<close>
  \<open>up_moves\<close> and \<open>down_moves\<close> name the two series the source averages, which it
  builds inline: \<^verbatim>\<open>delta.where(delta > 0, 0)\<close> and \<^verbatim>\<open>-delta.where(delta < 0, 0)\<close>.
\<close>

definition delta :: "fl list \<Rightarrow> fl list" where
  "delta close = diff close"

definition up_moves :: "fl list \<Rightarrow> fl list" where
  "up_moves close =
     series_where (delta close) (map (\<lambda>d. fgt d (Fin 0)) (delta close)) (Fin 0)"

definition down_moves :: "fl list \<Rightarrow> fl list" where
  "down_moves close =
     map fneg (series_where (delta close) (map (\<lambda>d. flt d (Fin 0)) (delta close)) (Fin 0))"

definition gain :: "fl list \<Rightarrow> fl list" where
  "gain close = rolling_mean 14 (up_moves close)"

definition loss :: "fl list \<Rightarrow> fl list" where
  "loss close = rolling_mean 14 (down_moves close)"

definition rs :: "fl list \<Rightarrow> fl list" where
  "rs close = map2 fdiv (gain close) (loss close)"

definition rsi :: "fl list \<Rightarrow> fl list" where
  "rsi close = map (\<lambda>r. fsub (Fin 100) (fdiv (Fin 100) (fadd (Fin 1) r))) (rs close)"



section \<open>The history frame\<close>

text \<open>
  \<^verbatim>\<open>get_stock_data(ticker, period)\<close> returns the DataFrame of
  \<^verbatim>\<open>yf.Ticker(ticker).history(period=period)\<close> or raises. A frame is its row index (the
  bar timestamps) and its named columns, in order; the market-data provider is outside the
  repository, so the result of a call is an input of the model. A column read from the frame
  is the list of its values and shares the frame's index; in a frame that pandas builds,
  every column is as long as the index.
\<close>

datatype py_error = KeyError | IndexError

record 't frame =
  index :: "'t list"
  cols :: "(string \<times> fl list) list"

datatype 't outcome = Fetched "'t frame" | Raised

text \<open>\<^verbatim>\<open>df[c]\<close> raises KeyError for a column the frame does not have.\<close>

definition getitem :: "'t frame \<Rightarrow> string \<Rightarrow> py_error + fl list" where
  "getitem df c = (case map_of (cols df) c of None \<Rightarrow> Inl KeyError | Some vs \<Rightarrow> Inr vs)"

text \<open>\<^verbatim>\<open>df[c] = series\<close> replaces the column or appends a new one.\<close>

definition setitem :: "'t frame \<Rightarrow> string \<Rightarrow> fl list \<Rightarrow> 't frame" where
  "setitem df c vs = df\<lparr>cols := AList.update c vs (cols df)\<rparr>"

text \<open>\<^verbatim>\<open>df.empty\<close>: one of the two axes has length 0. A frame of NaN rows is not empty.\<close>

definition frame_empty :: "'t frame \<Rightarrow> bool" where
  "frame_empty df = (index df = [] \<or> cols df = [])"

text \<open>\<^verbatim>\<open>xs.iloc[i]\<close> and \<^verbatim>\<open>xs[i]\<close>: a negative position counts from the end.\<close>

definition iloc :: "'a list \<Rightarrow> int \<Rightarrow> py_error + 'a" where
  "iloc xs i =
     (if 0 \<le> i \<and> i < int (length xs) then Inr (xs ! nat i)
      else if i < 0 \<and> - int (length xs) \<le> i then Inr (xs ! nat (int (length xs) + i))
      else Inl IndexError)"

section \<open>Single stock analysis: the price chart (lines 66 to 132)\<close>

text \<open>
  The three assignments of lines 71 to 79 on the frame, each reading the Close column of the
  frame as it is at that point.
\<close>

definition add_indicators :: "'t frame \<Rightarrow> py_error + 't frame" where
  "add_indicators hist_data =
     (case getitem hist_data ''Close'' of
        Inl e \<Rightarrow> Inl e
      | Inr close20 \<Rightarrow>
          let h1 = setitem hist_data ''SMA_20'' (rolling_mean 20 close20) in
          (case getitem h1 ''Close'' of
             Inl e \<Rightarrow> Inl e
           | Inr close50 \<Rightarrow>
               let h2 = setitem h1 ''SMA_50'' (rolling_mean 50 close50) in
               (case getitem h2 ''Close'' of
                  Inl e \<Rightarrow> Inl e
                | Inr close \<Rightarrow> Inr (setitem h2 ''RSI'' (rsi close)))))"

text \<open>
  What the section shows: the chart drawn from the frame with its indicator columns
  (\<^verbatim>\<open>st.plotly_chart\<close>), the warning of the \<^verbatim>\<open>else\<close> branch, or the error of the
  \<^verbatim>\<open>except\<close> branch. Drawing the figure is left to the charting library.
\<close>

datatype 't view = Chart "'t frame" | Warning string | Error string

definition price_chart :: "string \<Rightarrow> 't outcome \<Rightarrow> 't view" where
  "price_chart selected_ticker fetched =
     (case fetched of
        Raised \<Rightarrow> Error ''Failed to fetch historical data. Please try again later.''
      | Fetched hist_data \<Rightarrow>
          if \<not> frame_empty hist_data then
            (case add_indicators hist_data of
               Inl e \<Rightarrow> Error ''Failed to fetch historical data. Please try again later.''
             | Inr h \<Rightarrow> Chart h)
          else Warning (''No historical data available for '' @ selected_ticker
                        @ ''. The stock may be delisted or suspended.''))"

section \<open>Portfolio summary: the watchlist table (lines 190 to 221)\<close>

text \<open>The watchlist, in the insertion order of the \<^verbatim>\<open>tickers\<close> dict.\<close>

definition tickers :: "(string \<times> string) list" where
  "tickers =
     [(''Applied Digital'', ''APLD''), (''Symbotic'', ''SYM''), (''Tesla'', ''TSLA''),
      (''Google'', ''GOOGL''), (''Nebius Group N.V'', ''NBIS'')]"

text \<open>A table cell holds a number or a string such as the \<^verbatim>\<open>'N/A'\<close> sentinel.\<close>

datatype cell = Num fl | Str string

record snapshot =
  Name :: string
  Ticker :: string
  Price :: cell
  Change_pct :: cell
  Last_Updated :: cell

text \<open>The row both the \<^verbatim>\<open>else\<close> branch and the \<^verbatim>\<open>except\<close> branch append.\<close>

definition unavailable :: "string \<Rightarrow> string \<Rightarrow> snapshot" where
  "unavailable name ticker =
     \<lparr>Name = name, Ticker = ticker, Price = Str ''N/A'', Change_pct = Str ''N/A'',
      Last_Updated = Str ''N/A''\<rparr>"

text \<open>
  Lines 195 to 197; the result is the pair of \<^verbatim>\<open>current_price\<close> and \<^verbatim>\<open>change\<close>.
  \<^verbatim>\<open>
  current_price = data.iloc[-1]
  prev_close = data.iloc[-2] if len(data) > 1 else current_price
  change = ((current_price - prev_close) / prev_close) * 100
  \<close>
\<close>

definition day_change :: "fl list \<Rightarrow> py_error + fl \<times> fl" where
  "day_change data =
     (case iloc data (- 1) of
        Inl e \<Rightarrow> Inl e
      | Inr current_price \<Rightarrow>
          (case (if length data > 1 then iloc data (- 2) else Inr current_price) of
             Inl e \<Rightarrow> Inl e
           | Inr prev_close \<Rightarrow>
               Inr (current_price,
                    fmul (fdiv (fsub current_price prev_close) prev_close) (Fin 100))))"

text \<open>
  One pass of the loop body for a watchlist entry, given what
  \<^verbatim>\<open>get_stock_data(ticker, '1d')\<close> did. \<open>strftime\<close> stands for
  \<^verbatim>\<open>strftime('%Y-%m-%d')\<close> on a timestamp of the index. Any exception ends in the
  \<^verbatim>\<open>except\<close> branch.
\<close>

definition snapshot_of :: "('t \<Rightarrow> string) \<Rightarrow> string \<Rightarrow> string \<Rightarrow> 't outcome \<Rightarrow> snapshot" where
  "snapshot_of strftime name ticker fetched =
     (case fetched of
        Raised \<Rightarrow> unavailable name ticker
      | Fetched df \<Rightarrow>
          (case getitem df ''Close'' of
             Inl e \<Rightarrow> unavailable name ticker
           | Inr data \<Rightarrow>
               if data \<noteq> [] then
                 (case day_change data of
                    Inl e \<Rightarrow> unavailable name ticker
                  | Inr (current_price, change) \<Rightarrow>
                      (case iloc (index df) (- 1) of
                         Inl e \<Rightarrow> unavailable name ticker
                       | Inr stamp \<Rightarrow>
                           \<lparr>Name = name, Ticker = ticker, Price = Num current_price,
                            Change_pct = Num change, Last_Updated = Str (strftime stamp)\<rparr>))
               else unavailable name ticker))"

text \<open>The loop over \<^verbatim>\<open>tickers.items()\<close>, appending one row per entry.\<close>

fun portfolio_loop ::
  "('t \<Rightarrow> string) \<Rightarrow> (string \<Rightarrow> string \<Rightarrow> 't outcome) \<Rightarrow> (string \<times> string) list
   \<Rightarrow> snapshot list \<Rightarrow> snapshot list" where
  "portfolio_loop strftime get_stock_data [] portfolio_data = portfolio_data"
| "portfolio_loop strftime get_stock_data ((name, ticker) # rest) portfolio_data =
     portfolio_loop strftime get_stock_data rest
       (portfolio_data @ [snapshot_of strftime name ticker (get_stock_data ticker ''1d'')])"

definition portfolio_data ::
  "('t \<Rightarrow> string) \<Rightarrow> (string \<Rightarrow> string \<Rightarrow> 't outcome) \<Rightarrow> (string \<times> string) list
   \<Rightarrow> snapshot list" where
  "portfolio_data strftime get_stock_data watchlist =
     portfolio_loop strftime get_stock_data watchlist []"

section \<open>Portfolio summary: one-month performance (lines 244 to 255)\<close>

record perf_entry =
  Perf_Ticker :: string
  Performance_pct :: fl

text \<open>
  \<^verbatim>\<open>perf = ((data.iloc[-1] - data.iloc[0]) / data.iloc[0]) * 100\<close>
\<close>

definition perf :: "fl list \<Rightarrow> py_error + fl" where
  "perf data =
     (case iloc data (- 1) of
        Inl e \<Rightarrow> Inl e
      | Inr last_close \<Rightarrow>
          (case iloc data 0 of
             Inl e \<Rightarrow> Inl e
           | Inr first_close \<Rightarrow>
               Inr (fmul (fdiv (fsub last_close first_close) first_close) (Fin 100))))"

text \<open>
  One pass of the loop body: the entry to append, if any. An exception is passed over
  (\<^verbatim>\<open>except: pass\<close>).
\<close>

definition perf_entry_of :: "string \<Rightarrow> 't outcome \<Rightarrow> perf_entry option" where
  "perf_entry_of ticker fetched =
     (case fetched of
        Raised \<Rightarrow> None
      | Fetched df \<Rightarrow>
          (case getitem df ''Close'' of
             Inl e \<Rightarrow> None
           | Inr data \<Rightarrow>
               if data \<noteq> [] \<and> length data > 1 then
                 (case perf data of
                    Inl e \<Rightarrow> None
                  | Inr p \<Rightarrow> Some \<lparr>Perf_Ticker = ticker, Performance_pct = p\<rparr>)
               else None))"

fun perf_loop ::
  "(string \<Rightarrow> string \<Rightarrow> 't outcome) \<Rightarrow> (string \<times> string) list
   \<Rightarrow> perf_entry list \<Rightarrow> perf_entry list" where
  "perf_loop get_stock_data [] perf_data = perf_data"
| "perf_loop get_stock_data ((name, ticker) # rest) perf_data =
     perf_loop get_stock_data rest
       (case perf_entry_of ticker (get_stock_data ticker ''1mo'') of
          None \<Rightarrow> perf_data
        | Some entry \<Rightarrow> perf_data @ [entry])"

definition perf_data ::
  "(string \<Rightarrow> string \<Rightarrow> 't outcome) \<Rightarrow> (string \<times> string) list \<Rightarrow> perf_entry list" where
  "perf_data get_stock_data watchlist = perf_loop get_stock_data watchlist []"

text \<open>
  The number of points of the Close series a fetch delivered (none when it raised or the
  frame has no Close column); used to state which tickers get a performance entry.
\<close>

definition close_points :: "'t outcome \<Rightarrow> nat" where
  "close_points fetched =
     (case fetched of
        Raised \<Rightarrow> 0
      | Fetched df \<Rightarrow> (case getitem df ''Close'' of Inl e \<Rightarrow> 0 | Inr data \<Rightarrow> length data))"

section \<open>Example data\<close>

text \<open>A frame whose timestamps are day numbers, a provider and a date format, for examples.\<close>

definition example_frame :: "fl list \<Rightarrow> nat frame" where
  "example_frame closes = \<lparr>index = [0..<length closes], cols = [(''Close'', closes)]\<rparr>"

fun example_fetch :: "string \<Rightarrow> string \<Rightarrow> nat outcome" where
  "example_fetch ticker period =
     (if ticker = ''APLD'' then Fetched (example_frame [Fin 100, Fin 110])
      else if ticker = ''SYM'' then Raised
      else if ticker = ''TSLA'' then Fetched (example_frame [Fin 50, Fin 55, Fin 60])
      else if ticker = ''GOOGL'' then Fetched (example_frame [Fin 0, Fin 5])
      else if ticker = ''NBIS'' then Fetched (example_frame [Fin 0])
      else Fetched (example_frame []))"

fun example_strftime :: "nat \<Rightarrow> string" where
  "example_strftime day = (if day = 0 then ''2024-01-02'' else ''2024-01-03'')"

section \<open>Simple moving average\<close>

lemma length_rolling_mean: "length (rolling_mean w xs) = length xs"
  by (simp add: rolling_mean_def)

lemma nth_rolling_mean:
  "i < length xs \<Longrightarrow> rolling_mean w xs ! i = rolling_mean_at w xs i"
  by (simp add: rolling_mean_def)

lemma window_at_map: "window_at w (map f xs) i = map f (window_at w xs i)"
  by (simp add: window_at_def take_map drop_map)

lemma length_window_at:
  "i < length xs \<Longrightarrow> w \<le> Suc i \<Longrightarrow> length (window_at w xs i) = w"
  by (auto simp: window_at_def min_def)

lemma window_at_nth:
  assumes "i < length xs" and "w \<le> Suc i"
  shows "window_at w xs i = map (\<lambda>k. xs ! k) [Suc i - w..<Suc i]"
proof (rule nth_equalityI)
  have "length [Suc i - w..<Suc i] = w" using assms(2) by (simp del: upt_Suc)
  then show "length (window_at w xs i) = length (map (\<lambda>k. xs ! k) [Suc i - w..<Suc i])"
    using assms by (simp add: length_window_at del: upt_Suc)
next
  fix k assume "k < length (window_at w xs i)"
  then have k: "k < w" using assms by (simp add: length_window_at)
  have d: "Suc i - w \<le> length xs" using assms(1) by arith
  have "window_at w xs i ! k = drop (Suc i - w) xs ! k"
    using k by (simp add: window_at_def)
  also have "\<dots> = xs ! (Suc i - w + k)"
    using d by (rule nth_drop)
  finally have "window_at w xs i ! k = xs ! (Suc i - w + k)" .
  moreover have "map (\<lambda>k. xs ! k) [Suc i - w..<Suc i] ! k = xs ! (Suc i - w + k)"
    by (rule nth_map_upt) (use k assms(2) in arith)
  ultimately show "window_at w xs i ! k = map (\<lambda>k. xs ! k) [Suc i - w..<Suc i] ! k"
    by simp
qed

lemma rolling_mean_at_head: "Suc i < w \<Longrightarrow> rolling_mean_at w xs i = NaN"
  by (simp add: rolling_mean_at_def)

lemma rolling_mean_at_Fin:
  assumes "1 \<le> w" and "w \<le> Suc i"
  shows "rolling_mean_at w (map Fin cs) i = Fin (mean (window_at w cs i))"
proof -
  have "list_all is_fin (map Fin (window_at w cs i))"
    by (simp add: list_all_iff)
  moreover have "map the_fin (map Fin (window_at w cs i)) = window_at w cs i"
    by (simp add: comp_def)
  ultimately show ?thesis
    using assms by (simp add: rolling_mean_at_def window_at_map)
qed

lemma rolling_mean_split:
  assumes "1 \<le> w" and "w \<le> length cs"
  shows "rolling_mean w (map Fin cs) =
         replicate (w - 1) NaN @ map (\<lambda>i. Fin (mean (window_at w cs i))) [w - 1..<length cs]"
proof -
  have upt: "[0..<length cs] = [0..<w - 1] @ [w - 1..<length cs]"
    using assms upt_add_eq_append [of 0 "w - 1" "length cs - (w - 1)"] by simp
  have head: "map (rolling_mean_at w (map Fin cs)) [0..<w - 1] = replicate (w - 1) NaN"
  proof -
    have "map (rolling_mean_at w (map Fin cs)) [0..<w - 1] = map (\<lambda>i. NaN) [0..<w - 1]"
      by (rule map_cong) (auto simp: rolling_mean_at_head)
    then show ?thesis by (simp add: map_replicate_const)
  qed
  have tail: "map (rolling_mean_at w (map Fin cs)) [w - 1..<length cs] =
              map (\<lambda>i. Fin (mean (window_at w cs i))) [w - 1..<length cs]"
    by (rule map_cong) (use assms in \<open>auto simp: rolling_mean_at_Fin\<close>)
  have "rolling_mean w (map Fin cs) = map (rolling_mean_at w (map Fin cs)) [0..<length cs]"
    by (simp add: rolling_mean_def)
  also have "\<dots> = map (rolling_mean_at w (map Fin cs)) ([0..<w - 1] @ [w - 1..<length cs])"
    using upt by simp
  also have "\<dots> = replicate (w - 1) NaN
                 @ map (\<lambda>i. Fin (mean (window_at w cs i))) [w - 1..<length cs]"
    by (simp only: map_append head tail)
  finally show ?thesis .
qed

text \<open>
  Claim C1. For a sequence of \<open>L\<close> numeric closes and a window \<open>w\<close> with
  \<open>1 \<le> w \<le> L\<close>, the rolling mean has exactly \<open>L - w + 1\<close> defined values; at every
  index \<open>i \<ge> w - 1\<close> it is the arithmetic mean of the \<open>w\<close> closes ending at \<open>i\<close>, at
  every index below \<open>w - 1\<close> it is NaN (which is not the number zero); and for a window
  longer than the sequence every value is NaN.
\<close>

theorem sma_defined_values:
  assumes "1 \<le> w"
  shows "(w \<le> length cs \<longrightarrow>
            length (filter defined (rolling_mean w (map Fin cs))) = length cs - w + 1
          \<and> (\<forall>i. w - 1 \<le> i \<and> i < length cs \<longrightarrow>
                rolling_mean w (map Fin cs) ! i = Fin (sum_list (window_at w cs i) / real w)
              \<and> length (window_at w cs i) = w
              \<and> window_at w cs i = map (\<lambda>k. cs ! k) [Suc i - w..<Suc i])
          \<and> (\<forall>i. i < w - 1 \<longrightarrow>
                rolling_mean w (map Fin cs) ! i = NaN \<and> rolling_mean w (map Fin cs) ! i \<noteq> Fin 0))
       \<and> (length cs < w \<longrightarrow>
            (\<forall>i. i < length cs \<longrightarrow> rolling_mean w (map Fin cs) ! i = NaN)
          \<and> filter defined (rolling_mean w (map Fin cs)) = [])"
proof (intro conjI impI allI)
  assume le: "w \<le> length cs"
  have "filter defined (rolling_mean w (map Fin cs)) =
        map (\<lambda>i. Fin (mean (window_at w cs i))) [w - 1..<length cs]"
    using assms le by (simp add: rolling_mean_split filter_map comp_def)
  then show "length (filter defined (rolling_mean w (map Fin cs))) = length cs - w + 1"
    using assms le by simp
next
  fix i assume le: "w \<le> length cs" and i: "w - 1 \<le> i \<and> i < length cs"
  then have wi: "w \<le> Suc i" by arith
  have len: "length (window_at w cs i) = w"
    using i wi by (simp add: length_window_at)
  show "length (window_at w cs i) = w" by (rule len)
  show "rolling_mean w (map Fin cs) ! i = Fin (sum_list (window_at w cs i) / real w)"
    using i assms wi len by (simp add: nth_rolling_mean rolling_mean_at_Fin mean_def)
  show "window_at w cs i = map (\<lambda>k. cs ! k) [Suc i - w..<Suc i]"
    using i wi by (simp only: window_at_nth)
next
  fix i assume le: "w \<le> length cs" and i: "i < w - 1"
  then have "rolling_mean w (map Fin cs) ! i = NaN"
    by (simp add: nth_rolling_mean rolling_mean_at_head)
  then show "rolling_mean w (map Fin cs) ! i = NaN"
    and "rolling_mean w (map Fin cs) ! i \<noteq> Fin 0" by simp_all
next
  fix i assume lt: "length cs < w" and i: "i < length cs"
  then show "rolling_mean w (map Fin cs) ! i = NaN"
    by (simp add: nth_rolling_mean rolling_mean_at_head)
next
  assume lt: "length cs < w"
  have "map (rolling_mean_at w (map Fin cs)) [0..<length cs] = map (\<lambda>i. NaN) [0..<length cs]"
    by (rule map_cong) (use lt in \<open>auto simp: rolling_mean_at_head\<close>)
  then show "filter defined (rolling_mean w (map Fin cs)) = []"
    by (simp add: rolling_mean_def map_replicate_const)
qed

theorem sma_defined_values_witness:
  "(1::nat) \<le> 3 \<and> 3 \<le> length [1, 2, 3, 6 :: real]
   \<and> length (filter defined (rolling_mean 3 (map Fin [1, 2, 3, 6]))) = 2
   \<and> rolling_mean 3 (map Fin [1, 2, 3, 6]) ! 3 = Fin (11 / 3)
   \<and> rolling_mean 3 (map Fin [1, 2, 3, 6]) ! 1 = NaN
   \<and> rolling_mean 5 (map Fin [1, 2, 3, 6]) ! 3 = NaN"
  using sma_defined_values [of 3 "[1, 2, 3, 6]"] sma_defined_values [of 5 "[1, 2, 3, 6]"]
  by (simp add: window_at_def)

section \<open>Relative strength index\<close>

lemma length_diff: "length (diff xs) = length xs"
  by (simp add: diff_def)

lemma nth_diff:
  "i < length xs \<Longrightarrow> diff xs ! i = (if i = 0 then NaN else fsub (xs ! i) (xs ! (i - 1)))"
  by (simp add: diff_def)

lemma length_delta: "length (delta close) = length close"
  by (simp add: delta_def length_diff)

lemma length_up_moves: "length (up_moves close) = length close"
  by (simp add: up_moves_def series_where_def length_delta)

lemma length_down_moves: "length (down_moves close) = length close"
  by (simp add: down_moves_def series_where_def length_delta)

lemma nth_up_moves:
  "i < length close \<Longrightarrow>
   up_moves close ! i = (if fgt (delta close ! i) (Fin 0) then delta close ! i else Fin 0)"
  by (simp add: up_moves_def series_where_def length_delta)

lemma nth_down_moves:
  "i < length close \<Longrightarrow>
   down_moves close ! i = fneg (if flt (delta close ! i) (Fin 0) then delta close ! i else Fin 0)"
  by (simp add: down_moves_def series_where_def length_delta)

lemma length_gain: "length (gain close) = length close"
  by (simp add: gain_def length_rolling_mean length_up_moves)

lemma length_loss: "length (loss close) = length close"
  by (simp add: loss_def length_rolling_mean length_down_moves)

lemma length_rs: "length (rs close) = length close"
  by (simp add: rs_def length_gain length_loss)

lemma length_rsi: "length (rsi close) = length close"
  by (simp add: rsi_def length_rs)

lemma nth_rs:
  "i < length close \<Longrightarrow> rs close ! i = fdiv (gain close ! i) (loss close ! i)"
  by (simp add: rs_def length_gain length_loss)

lemma nth_rsi:
  "i < length close \<Longrightarrow>
   rsi close ! i =
     fsub (Fin 100) (fdiv (Fin 100) (fadd (Fin 1) (fdiv (gain close ! i) (loss close ! i))))"
  by (simp add: rsi_def length_rs nth_rs)

lemma nth_gain:
  "i < length close \<Longrightarrow> gain close ! i = rolling_mean_at 14 (up_moves close) i"
  by (simp add: gain_def nth_rolling_mean length_up_moves)

lemma nth_loss:
  "i < length close \<Longrightarrow> loss close ! i = rolling_mean_at 14 (down_moves close) i"
  by (simp add: loss_def nth_rolling_mean length_down_moves)

subsection \<open>Bounds\<close>

lemma up_move_nonneg:
  assumes "x \<in> set (up_moves close)" and "is_fin x"
  shows "0 \<le> the_fin x"
proof -
  from assms(1) obtain i where i: "i < length close" and x: "x = up_moves close ! i"
    by (auto simp: in_set_conv_nth length_up_moves)
  show ?thesis
    using assms(2) unfolding x nth_up_moves [OF i]
    by (cases "delta close ! i") (auto simp: fgt_def split: if_splits)
qed

lemma down_move_nonneg:
  assumes "x \<in> set (down_moves close)" and "is_fin x"
  shows "0 \<le> the_fin x"
proof -
  from assms(1) obtain i where i: "i < length close" and x: "x = down_moves close ! i"
    by (auto simp: in_set_conv_nth length_down_moves)
  show ?thesis
    using assms(2) unfolding x nth_down_moves [OF i]
    by (cases "delta close ! i") (auto split: if_splits)
qed

lemma set_window_at: "set (window_at w xs i) \<subseteq> set xs"
  unfolding window_at_def
  by (meson set_take_subset set_drop_subset subset_trans)

lemma rolling_mean_at_nonneg:
  assumes "\<And>x. x \<in> set xs \<Longrightarrow> is_fin x \<Longrightarrow> 0 \<le> the_fin x"
  shows "rolling_mean_at w xs i = NaN \<or> (\<exists>a. 0 \<le> a \<and> rolling_mean_at w xs i = Fin a)"
proof (cases "\<not> (Suc i < w \<or> w = 0) \<and> list_all is_fin (window_at w xs i)")
  case True
  then have fin: "\<And>x. x \<in> set (window_at w xs i) \<Longrightarrow> is_fin x"
    by (simp add: list_all_iff)
  have "0 \<le> sum_list (map the_fin (window_at w xs i))"
  proof (rule sum_list_nonneg)
    fix r assume "r \<in> set (map the_fin (window_at w xs i))"
    then obtain x where "x \<in> set (window_at w xs i)" and "r = the_fin x" by auto
    then show "0 \<le> r"
      using fin assms set_window_at [of w xs i] by auto
  qed
  then have "0 \<le> mean (map the_fin (window_at w xs i))"
    by (simp add: mean_def)
  then show ?thesis using True by (auto simp: rolling_mean_at_def)
next
  case False
  then show ?thesis by (auto simp: rolling_mean_at_def)
qed

lemma rsi_value_cases:
  assumes "g = NaN \<or> (\<exists>a. 0 \<le> a \<and> g = Fin a)"
    and "l = NaN \<or> (\<exists>b. 0 \<le> b \<and> l = Fin b)"
  shows "fsub (Fin 100) (fdiv (Fin 100) (fadd (Fin 1) (fdiv g l))) = NaN
       \<or> (\<exists>r. fsub (Fin 100) (fdiv (Fin 100) (fadd (Fin 1) (fdiv g l))) = Fin r
              \<and> 0 \<le> r \<and> r \<le> 100)"
proof (cases g)
  case (Fin a)
  note g = this
  show ?thesis
  proof (cases l)
    case (Fin b)
    with g assms have a: "0 \<le> a" and b: "0 \<le> b" by auto
    show ?thesis
    proof (cases "b = 0")
      case True
      then show ?thesis using g Fin a by (auto simp: fsub_def)
    next
      case False
      with b have bpos: "0 < b" by simp
      have q: "0 \<le> a / b" using a bpos by simp
      then have pos: "0 < 1 + a / b" by linarith
      have one: "1 \<le> 1 + a / b" using q by simp
      have "100 / (1 + a / b) \<le> 100 / 1"
        by (rule divide_left_mono [OF one]) (use pos in simp_all)
      then have le: "100 / (1 + a / b) \<le> 100" by simp
      have ge: "0 \<le> 100 / (1 + a / b)" using pos by simp
      have ne: "1 + a / b \<noteq> 0" using pos by simp
      show ?thesis using g Fin False ne le ge by (simp add: fsub_def)
    qed
  next
    case NaN
    then show ?thesis by (cases g) (simp_all add: fsub_def)
  qed (use assms in auto)
next
  case NaN
  then show ?thesis by (simp add: fsub_def)
qed (use assms in auto)


lemma rsi_defined_iff:
  assumes "0 \<le> a" and "0 \<le> b"
  shows "defined (fsub (Fin 100) (fdiv (Fin 100) (fadd (Fin 1) (fdiv (Fin a) (Fin b)))))
         \<longleftrightarrow> \<not> (a = 0 \<and> b = 0)"
proof (cases "b = 0")
  case True
  then show ?thesis by (auto simp: fsub_def)
next
  case False
  with assms have "0 < 1 + a / b" by (simp add: add_pos_nonneg)
  then have "1 + a / b \<noteq> 0" by simp
  then show ?thesis using False by (simp add: fsub_def)
qed

subsection \<open>Numeric closes\<close>

lemma delta_Fin:
  "i < length cs \<Longrightarrow>
   delta (map Fin cs) ! i = (if i = 0 then NaN else Fin (cs ! i - cs ! (i - 1)))"
  by (simp add: delta_def nth_diff fsub_def)

lemma up_moves_Fin:
  "i < length cs \<Longrightarrow>
   up_moves (map Fin cs) ! i = Fin (if i = 0 then 0 else max (cs ! i - cs ! (i - 1)) 0)"
  by (simp add: nth_up_moves delta_Fin fgt_def max_def)

lemma down_moves_Fin:
  "i < length cs \<Longrightarrow>
   down_moves (map Fin cs) ! i = Fin (if i = 0 then 0 else max (- (cs ! i - cs ! (i - 1))) 0)"
  by (simp add: nth_down_moves delta_Fin max_def)

lemma rolling_mean_at_all_fin:
  assumes "\<And>k. k < length xs \<Longrightarrow> is_fin (xs ! k)"
    and "i < length xs" and "1 \<le> w" and "w \<le> Suc i"
  shows "rolling_mean_at w xs i =
         Fin (sum_list (map (\<lambda>k. the_fin (xs ! k)) [Suc i - w..<Suc i]) / real w)"
proof -
  have "is_fin x" if "x \<in> set (window_at w xs i)" for x
  proof -
    from that have "x \<in> set xs" using set_window_at [of w xs i] by blast
    then obtain k where "k < length xs" and "xs ! k = x"
      by (auto simp: in_set_conv_nth)
    then show ?thesis using assms(1) by auto
  qed
  then have "list_all is_fin (window_at w xs i)"
    by (simp add: list_all_iff)
  moreover have "map the_fin (window_at w xs i) = map (\<lambda>k. the_fin (xs ! k)) [Suc i - w..<Suc i]"
    by (simp add: window_at_nth [OF assms(2,4)] comp_def del: upt_Suc)
  moreover have "length (window_at w xs i) = w"
    using assms by (simp add: length_window_at)
  ultimately show ?thesis
    using assms(3,4) by (simp add: rolling_mean_at_def mean_def del: upt_Suc)
qed

lemma gain_Fin:
  assumes "i < length cs"
  shows "gain (map Fin cs) ! i =
         (if i < 13 then NaN
          else Fin (sum_list (map (\<lambda>k. the_fin (up_moves (map Fin cs) ! k)) [i - 13..<Suc i]) / 14))"
proof (cases "i < 13")
  case True
  then show ?thesis using assms by (simp add: nth_gain rolling_mean_at_head)
next
  case False
  have "rolling_mean_at 14 (up_moves (map Fin cs)) i =
        Fin (sum_list (map (\<lambda>k. the_fin (up_moves (map Fin cs) ! k)) [Suc i - 14..<Suc i]) / real 14)"
    by (rule rolling_mean_at_all_fin)
       (use assms False in \<open>simp_all add: length_up_moves up_moves_Fin\<close>)
  then show ?thesis using assms False by (simp add: nth_gain del: upt_Suc)
qed

lemma loss_Fin:
  assumes "i < length cs"
  shows "loss (map Fin cs) ! i =
         (if i < 13 then NaN
          else Fin (sum_list (map (\<lambda>k. the_fin (down_moves (map Fin cs) ! k)) [i - 13..<Suc i]) / 14))"
proof (cases "i < 13")
  case True
  then show ?thesis using assms by (simp add: nth_loss rolling_mean_at_head)
next
  case False
  have "rolling_mean_at 14 (down_moves (map Fin cs)) i =
        Fin (sum_list (map (\<lambda>k. the_fin (down_moves (map Fin cs) ! k)) [Suc i - 14..<Suc i]) / real 14)"
    by (rule rolling_mean_at_all_fin)
       (use assms False in \<open>simp_all add: length_down_moves down_moves_Fin\<close>)
  then show ?thesis using assms False by (simp add: nth_loss del: upt_Suc)
qed

text \<open>
  Claim C3. For every close sequence (NaN and infinite closes included) and every index,
  an RSI value that is defined is a number between 0 and 100; where the 14-bar average loss
  is zero and the average gain is positive the RSI is exactly 100 (the quotient is
  \<open>+\<infinity>\<close>); and where both averages are zero the quotient is \<open>0 / 0\<close> and the RSI is
  NaN: the code has no special case.
\<close>

theorem rsi_bounded:
  assumes "i < length close"
  shows "(defined (rsi close ! i) \<longrightarrow> (\<exists>r. rsi close ! i = Fin r \<and> 0 \<le> r \<and> r \<le> 100))
       \<and> (loss close ! i = Fin 0 \<and> (\<exists>g. 0 < g \<and> gain close ! i = Fin g)
            \<longrightarrow> rsi close ! i = Fin 100)
       \<and> (gain close ! i = Fin 0 \<and> loss close ! i = Fin 0 \<longrightarrow> rsi close ! i = NaN)"
proof (intro conjI impI)
  have g: "gain close ! i = NaN \<or> (\<exists>a. 0 \<le> a \<and> gain close ! i = Fin a)"
    unfolding nth_gain [OF assms] by (rule rolling_mean_at_nonneg) (rule up_move_nonneg)
  have l: "loss close ! i = NaN \<or> (\<exists>b. 0 \<le> b \<and> loss close ! i = Fin b)"
    unfolding nth_loss [OF assms] by (rule rolling_mean_at_nonneg) (rule down_move_nonneg)
  assume "defined (rsi close ! i)"
  then show "\<exists>r. rsi close ! i = Fin r \<and> 0 \<le> r \<and> r \<le> 100"
    using rsi_value_cases [OF g l] by (auto simp: nth_rsi [OF assms])
next
  assume "loss close ! i = Fin 0 \<and> (\<exists>g. 0 < g \<and> gain close ! i = Fin g)"
  then show "rsi close ! i = Fin 100"
    by (auto simp: nth_rsi [OF assms] fsub_def)
next
  assume "gain close ! i = Fin 0 \<and> loss close ! i = Fin 0"
  then show "rsi close ! i = NaN"
    by (simp add: nth_rsi [OF assms] fsub_def)
qed

theorem rsi_bounded_witness:
  "(13::nat) < length (map Fin [1, 2, 3, 4, 5, 6, 7, 8, 9, 10, 11, 12, 13, 14 :: real])
   \<and> loss (map Fin [1, 2, 3, 4, 5, 6, 7, 8, 9, 10, 11, 12, 13, 14]) ! 13 = Fin 0
   \<and> gain (map Fin [1, 2, 3, 4, 5, 6, 7, 8, 9, 10, 11, 12, 13, 14]) ! 13 = Fin (13 / 14)
   \<and> rsi (map Fin [1, 2, 3, 4, 5, 6, 7, 8, 9, 10, 11, 12, 13, 14]) ! 13 = Fin 100
   \<and> gain (map Fin [5, 5, 5, 5, 5, 5, 5, 5, 5, 5, 5, 5, 5, 5]) ! 13 = Fin 0
   \<and> loss (map Fin [5, 5, 5, 5, 5, 5, 5, 5, 5, 5, 5, 5, 5, 5]) ! 13 = Fin 0
   \<and> rsi (map Fin [5, 5, 5, 5, 5, 5, 5, 5, 5, 5, 5, 5, 5, 5]) ! 13 = NaN"
proof -
  have len: "(13::nat) < length (map Fin [1, 2, 3, 4, 5, 6, 7, 8, 9, 10, 11, 12, 13, 14 :: real])"
    by simp
  have l1: "loss (map Fin [1, 2, 3, 4, 5, 6, 7, 8, 9, 10, 11, 12, 13, 14]) ! 13 = Fin 0"
    by code_simp
  have g1: "gain (map Fin [1, 2, 3, 4, 5, 6, 7, 8, 9, 10, 11, 12, 13, 14]) ! 13 = Fin (13 / 14)"
    by code_simp
  have len2: "(13::nat) < length (map Fin [5, 5, 5, 5, 5, 5, 5, 5, 5, 5, 5, 5, 5, 5 :: real])"
    by simp
  have g2: "gain (map Fin [5, 5, 5, 5, 5, 5, 5, 5, 5, 5, 5, 5, 5, 5]) ! 13 = Fin 0"
    by code_simp
  have l2: "loss (map Fin [5, 5, 5, 5, 5, 5, 5, 5, 5, 5, 5, 5, 5, 5]) ! 13 = Fin 0"
    by code_simp
  have ex: "\<exists>g. 0 < g
      \<and> gain (map Fin [1, 2, 3, 4, 5, 6, 7, 8, 9, 10, 11, 12, 13, 14]) ! 13 = Fin g"
    using g1 by (intro exI [of _ "13 / 14"]) simp
  have r1: "rsi (map Fin [1, 2, 3, 4, 5, 6, 7, 8, 9, 10, 11, 12, 13, 14]) ! 13 = Fin 100"
    using rsi_bounded [OF len, THEN conjunct2, THEN conjunct1] l1 ex by blast
  have r2: "rsi (map Fin [5, 5, 5, 5, 5, 5, 5, 5, 5, 5, 5, 5, 5, 5]) ! 13 = NaN"
    using rsi_bounded [OF len2, THEN conjunct2, THEN conjunct2] g2 l2 by blast
  show ?thesis using len l1 g1 r1 g2 l2 r2 by (intro conjI)
qed

text \<open>
  Claim C2, as amended. For numeric closes: \<open>delta\<close> is NaN at index 0 and
  \<open>close[i] - close[i-1]\<close> from index 1 on; the two series that are averaged are defined at
  every index, with the value 0 at index 0 (\<^verbatim>\<open>where\<close> replaces the NaN of \<open>delta\<close> by
  0) and \<open>max(delta[i], 0)\<close>, \<open>max(-delta[i], 0)\<close> from index 1 on; \<open>gain\<close> and
  \<open>loss\<close> are their means over the 14 indices ending at \<open>i\<close>, NaN below index 13 and
  numbers from index 13 on (the first window is the indices 0 to 13 and counts the 0 put at
  index 0); the RSI is \<open>100 - 100 / (1 + gain[i] / loss[i])\<close> at every index, NaN below
  index 13, and from index 13 on defined exactly when the two averages are not both zero.
\<close>

theorem rsi_steps:
  assumes "i < length cs"
  shows "delta (map Fin cs) ! i = (if i = 0 then NaN else Fin (cs ! i - cs ! (i - 1)))
       \<and> up_moves (map Fin cs) ! i = Fin (if i = 0 then 0 else max (cs ! i - cs ! (i - 1)) 0)
       \<and> down_moves (map Fin cs) ! i
           = Fin (if i = 0 then 0 else max (- (cs ! i - cs ! (i - 1))) 0)
       \<and> gain (map Fin cs) ! i =
           (if i < 13 then NaN
            else Fin (sum_list (map (\<lambda>k. the_fin (up_moves (map Fin cs) ! k)) [i - 13..<Suc i])
                      / 14))
       \<and> loss (map Fin cs) ! i =
           (if i < 13 then NaN
            else Fin (sum_list (map (\<lambda>k. the_fin (down_moves (map Fin cs) ! k)) [i - 13..<Suc i])
                      / 14))
       \<and> rsi (map Fin cs) ! i =
           fsub (Fin 100)
             (fdiv (Fin 100) (fadd (Fin 1) (fdiv (gain (map Fin cs) ! i) (loss (map Fin cs) ! i))))
       \<and> (i < 13 \<longrightarrow> rsi (map Fin cs) ! i = NaN)
       \<and> (13 \<le> i \<longrightarrow>
            (defined (rsi (map Fin cs) ! i)
             \<longleftrightarrow> \<not> (gain (map Fin cs) ! i = Fin 0 \<and> loss (map Fin cs) ! i = Fin 0)))"
proof -
  have len: "i < length (map Fin cs)" using assms by simp
  have g: "gain (map Fin cs) ! i = NaN \<or> (\<exists>a. 0 \<le> a \<and> gain (map Fin cs) ! i = Fin a)"
    unfolding nth_gain [OF len] by (rule rolling_mean_at_nonneg) (rule up_move_nonneg)
  have l: "loss (map Fin cs) ! i = NaN \<or> (\<exists>b. 0 \<le> b \<and> loss (map Fin cs) ! i = Fin b)"
    unfolding nth_loss [OF len] by (rule rolling_mean_at_nonneg) (rule down_move_nonneg)
  have early: "i < 13 \<longrightarrow> rsi (map Fin cs) ! i = NaN"
    using assms by (simp add: nth_rsi gain_Fin fsub_def)
  have late: "13 \<le> i \<longrightarrow>
       (defined (rsi (map Fin cs) ! i)
        \<longleftrightarrow> \<not> (gain (map Fin cs) ! i = Fin 0 \<and> loss (map Fin cs) ! i = Fin 0))"
  proof
    assume "13 \<le> i"
    then have "gain (map Fin cs) ! i \<noteq> NaN" and "loss (map Fin cs) ! i \<noteq> NaN"
      using assms by (simp_all add: gain_Fin loss_Fin del: upt_Suc)
    with g l obtain a b where a: "0 \<le> a" "gain (map Fin cs) ! i = Fin a"
      and b: "0 \<le> b" "loss (map Fin cs) ! i = Fin b" by auto
    show "defined (rsi (map Fin cs) ! i)
        \<longleftrightarrow> \<not> (gain (map Fin cs) ! i = Fin 0 \<and> loss (map Fin cs) ! i = Fin 0)"
      unfolding nth_rsi [OF len] a(2) b(2)
      using rsi_defined_iff [OF a(1) b(1)] by simp
  qed
  show ?thesis
    using assms early late
    by (simp only: delta_Fin up_moves_Fin down_moves_Fin gain_Fin loss_Fin nth_rsi [OF len]
        simp_thms)
qed

theorem rsi_steps_witness:
  "(13::nat) < length [10, 11, 10, 11, 10, 11, 10, 11, 10, 11, 10, 11, 10, 11 :: real]
   \<and> delta (map Fin [10, 11, 10, 11, 10, 11, 10, 11, 10, 11, 10, 11, 10, 11]) ! 13 = Fin 1
   \<and> defined (rsi (map Fin [10, 11, 10, 11, 10, 11, 10, 11, 10, 11, 10, 11, 10, 11]) ! 13)"
proof -
  have len: "(13::nat) < length [10, 11, 10, 11, 10, 11, 10, 11, 10, 11, 10, 11, 10, 11 :: real]"
    by simp
  note steps = rsi_steps [OF len]
  have g: "gain (map Fin [10, 11, 10, 11, 10, 11, 10, 11, 10, 11, 10, 11, 10, 11]) ! 13
           = Fin (1 / 2)"
    by code_simp
  have d: "delta (map Fin [10, 11, 10, 11, 10, 11, 10, 11, 10, 11, 10, 11, 10, 11]) ! 13 = Fin 1"
    using steps [THEN conjunct1] by simp
  have r: "defined (rsi (map Fin [10, 11, 10, 11, 10, 11, 10, 11, 10, 11, 10, 11, 10, 11]) ! 13)"
    using steps [THEN conjunct2, THEN conjunct2, THEN conjunct2, THEN conjunct2,
                 THEN conjunct2, THEN conjunct2, THEN conjunct2] g
    by simp
  show ?thesis using len d r by (intro conjI)
qed

text \<open>
  Against claim C2 as stated: on 14 closes the only deltas are those of the indices 1 to 13,
  yet both averages and the RSI are defined at index 13, and the averaged series are
  defined (zero) at index 0, where \<open>delta\<close> is not.
\<close>

theorem rsi_first_window_counterexample:
  "delta (map Fin [10, 11, 10, 11, 10, 11, 10, 11, 10, 11, 10, 11, 10, 11]) ! 0 = NaN
   \<and> up_moves (map Fin [10, 11, 10, 11, 10, 11, 10, 11, 10, 11, 10, 11, 10, 11]) ! 0 = Fin 0
   \<and> down_moves (map Fin [10, 11, 10, 11, 10, 11, 10, 11, 10, 11, 10, 11, 10, 11]) ! 0 = Fin 0
   \<and> gain (map Fin [10, 11, 10, 11, 10, 11, 10, 11, 10, 11, 10, 11, 10, 11]) ! 13 = Fin (1 / 2)
   \<and> loss (map Fin [10, 11, 10, 11, 10, 11, 10, 11, 10, 11, 10, 11, 10, 11]) ! 13 = Fin (3 / 7)
   \<and> rsi (map Fin [10, 11, 10, 11, 10, 11, 10, 11, 10, 11, 10, 11, 10, 11]) ! 13 = Fin (700 / 13)"
  by code_simp

section \<open>Day change\<close>


lemma iloc_last: "xs \<noteq> [] \<Longrightarrow> iloc xs (- 1) = Inr (last xs)"
proof -
  assume ne: "xs \<noteq> []"
  then have "nat (int (length xs) + (- 1)) = length xs - 1"
    by (cases xs) simp_all
  moreover have "- int (length xs) \<le> - 1" using ne by (cases xs) simp_all
  ultimately show ?thesis using ne by (simp add: iloc_def last_conv_nth)
qed

lemma iloc_second_last: "1 < length xs \<Longrightarrow> iloc xs (- 2) = Inr (xs ! (length xs - 2))"
proof -
  assume len: "1 < length xs"
  then have "nat (int (length xs) + (- 2)) = length xs - 2" by arith
  moreover have "- int (length xs) \<le> - 2" using len by arith
  ultimately show ?thesis by (simp add: iloc_def)
qed

lemma iloc_first: "xs \<noteq> [] \<Longrightarrow> iloc xs 0 = Inr (hd xs)"
  by (simp add: iloc_def hd_conv_nth)

lemma iloc_empty: "iloc [] i = Inl IndexError"
  by (simp add: iloc_def)

lemma day_change_eq:
  assumes "data \<noteq> []"
  shows "day_change data =
         Inr (last data,
              fmul (fdiv (fsub (last data)
                               (if 1 < length data then data ! (length data - 2) else last data))
                         (if 1 < length data then data ! (length data - 2) else last data))
                   (Fin 100))"
  using assms by (simp add: day_change_def iloc_last iloc_second_last)

lemma perf_eq:
  assumes "data \<noteq> []"
  shows "perf data = Inr (fmul (fdiv (fsub (last data) (hd data)) (hd data)) (Fin 100))"
  using assms by (simp add: perf_def iloc_last iloc_first)

text \<open>
  Claim C4, as amended. With at least two points the day change is
  \<open>((latest - previous) / previous) * 100\<close> on the last two closes (in float64 arithmetic,
  and as a number when both are numbers and the previous close is not zero); with exactly
  one point that is a nonzero number it is exactly 0; closes \<open>[100, 110]\<close> give 10,
  \<open>[100]\<close> gives 0 and \<open>[100, 90]\<close> give -10.
\<close>

theorem day_change_value:
  "(2 \<le> length data \<longrightarrow>
      day_change data =
        Inr (last data,
             fmul (fdiv (fsub (last data) (data ! (length data - 2))) (data ! (length data - 2)))
                  (Fin 100)))
   \<and> (previous \<noteq> 0 \<longrightarrow>
        day_change (earlier @ [Fin previous, Fin latest]) =
          Inr (Fin latest, Fin ((latest - previous) / previous * 100)))
   \<and> (c \<noteq> 0 \<longrightarrow> day_change [Fin c] = Inr (Fin c, Fin 0))
   \<and> day_change [Fin 100, Fin 110] = Inr (Fin 110, Fin 10)
   \<and> day_change [Fin 100] = Inr (Fin 100, Fin 0)
   \<and> day_change [Fin 100, Fin 90] = Inr (Fin 90, Fin (- 10))"
proof (intro conjI impI)
  assume "2 \<le> length data"
  then have "data \<noteq> []" and "1 < length data" by auto
  then show "day_change data =
        Inr (last data,
             fmul (fdiv (fsub (last data) (data ! (length data - 2))) (data ! (length data - 2)))
                  (Fin 100))"
    by (simp add: day_change_eq)
next
  assume "previous \<noteq> 0"
  moreover have "(earlier @ [Fin previous, Fin latest]) ! length earlier = Fin previous"
    by (simp add: nth_append)
  ultimately show "day_change (earlier @ [Fin previous, Fin latest]) =
          Inr (Fin latest, Fin ((latest - previous) / previous * 100))"
    by (simp add: day_change_eq fsub_def)
next
  assume "c \<noteq> 0"
  then show "day_change [Fin c] = Inr (Fin c, Fin 0)"
    by (simp add: day_change_eq fsub_def)
next
  show "day_change [Fin 100, Fin 110] = Inr (Fin 110, Fin 10)"
    by (simp add: day_change_eq fsub_def)
  show "day_change [Fin 100] = Inr (Fin 100, Fin 0)"
    by (simp add: day_change_eq fsub_def)
  show "day_change [Fin 100, Fin 90] = Inr (Fin 90, Fin (- 10))"
    by (simp add: day_change_eq fsub_def)
qed

theorem day_change_value_witness:
  "2 \<le> length [Fin 3, Fin 4, Fin 5] \<and> (4::real) \<noteq> 0
   \<and> day_change [Fin 3, Fin 4, Fin 5] = Inr (Fin 5, Fin 25)
   \<and> day_change [Fin 4] = Inr (Fin 4, Fin 0)"
  using day_change_value [of "[Fin 3, Fin 4, Fin 5]" 4 "[Fin 3]" 5 4]
  by (simp add: fsub_def)

text \<open>
  Against claim C4 as stated: a single close of zero gives \<open>0 / 0\<close>, which is NaN and not
  0, and so does a single NaN close.
\<close>

theorem day_change_single_point_counterexample:
  "day_change [Fin 0] = Inr (Fin 0, NaN) \<and> day_change [Fin 0] \<noteq> Inr (Fin 0, Fin 0)
   \<and> day_change [NaN] = Inr (NaN, NaN)"
  by (simp add: day_change_eq fsub_def)


section \<open>One-month performance\<close>

lemma perf_entry_of_eq:
  assumes "getitem df ''Close'' = Inr data"
  shows "perf_entry_of ticker (Fetched df) =
         (if 1 < length data
          then Some \<lparr>Perf_Ticker = ticker,
                     Performance_pct = fmul (fdiv (fsub (last data) (hd data)) (hd data)) (Fin 100)\<rparr>
          else None)"
proof (cases "1 < length data")
  case True
  then have "data \<noteq> []" by auto
  then show ?thesis using True assms by (simp add: perf_entry_of_def perf_eq)
next
  case False
  then show ?thesis using assms by (simp add: perf_entry_of_def)
qed

lemma perf_entry_of_Some_iff:
  "(\<exists>e. perf_entry_of ticker fetched = Some e) \<longleftrightarrow> 2 \<le> close_points fetched"
proof (cases fetched)
  case (Fetched df)
  show ?thesis
  proof (cases "getitem df ''Close''")
    case (Inl e)
    then show ?thesis using Fetched by (simp add: perf_entry_of_def close_points_def)
  next
    case (Inr data)
    then show ?thesis using Fetched
      by (auto simp: perf_entry_of_eq close_points_def)
  qed
next
  case Raised
  then show ?thesis by (simp add: perf_entry_of_def close_points_def)
qed

lemma perf_entry_of_ticker:
  "perf_entry_of ticker fetched = Some e \<Longrightarrow> Perf_Ticker e = ticker"
  by (auto simp: perf_entry_of_def split: outcome.splits sum.splits if_splits)

lemma perf_loop_acc:
  "perf_loop get_stock_data watchlist acc =
   acc @ List.map_filter (\<lambda>(name, ticker). perf_entry_of ticker (get_stock_data ticker ''1mo''))
           watchlist"
proof (induction watchlist arbitrary: acc)
  case Nil
  then show ?case by (simp add:)
next
  case (Cons entry watchlist)
  obtain name ticker where entry: "entry = (name, ticker)" by (cases entry)
  show ?case
    unfolding entry
    by (cases "perf_entry_of ticker (get_stock_data ticker ''1mo'')")
       (simp_all add: Cons.IH)
qed

lemma perf_tickers_filter:
  "map Perf_Ticker
     (List.map_filter (\<lambda>(name, ticker). perf_entry_of ticker (get_stock_data ticker ''1mo''))
        watchlist)
   = map snd (filter (\<lambda>(name, ticker). 2 \<le> close_points (get_stock_data ticker ''1mo''))
                watchlist)"
proof (induction watchlist)
  case Nil
  then show ?case by (simp add:)
next
  case (Cons entry watchlist)
  obtain name ticker where entry: "entry = (name, ticker)" by (cases entry)
  show ?case
  proof (cases "perf_entry_of ticker (get_stock_data ticker ''1mo'')")
    case None
    then have "\<not> 2 \<le> close_points (get_stock_data ticker ''1mo'')"
      using perf_entry_of_Some_iff [of ticker "get_stock_data ticker ''1mo''"] by simp
    then show ?thesis using None Cons.IH by (simp add: entry)
  next
    case (Some e)
    then have "2 \<le> close_points (get_stock_data ticker ''1mo'')"
      using perf_entry_of_Some_iff [of ticker "get_stock_data ticker ''1mo''"] by auto
    then show ?thesis
      using Some Cons.IH perf_entry_of_ticker [OF Some]
      by (simp add: entry)
  qed
qed

text \<open>
  Claim C5. For a ticker whose one-month Close series was fetched: with at least two points
  the entry holds \<open>((last - first) / first) * 100\<close> (in float64 arithmetic, and as a
  number when both closes are numbers and the first is not zero); with no point or one
  point no entry is made and the loop goes on with the list unchanged, although the day
  change of a one-point series has a value; \<open>[50, 55, 60]\<close> gives 20.
\<close>

theorem perf_entry_value:
  assumes "get_stock_data ticker ''1mo'' = Fetched df" and "getitem df ''Close'' = Inr data"
  shows "(2 \<le> length data \<longrightarrow>
            perf_entry_of ticker (get_stock_data ticker ''1mo'') =
              Some \<lparr>Perf_Ticker = ticker,
                    Performance_pct =
                      fmul (fdiv (fsub (last data) (hd data)) (hd data)) (Fin 100)\<rparr>
          \<and> (\<forall>first final. hd data = Fin first \<and> last data = Fin final \<and> first \<noteq> 0 \<longrightarrow>
                perf_entry_of ticker (get_stock_data ticker ''1mo'') =
                  Some \<lparr>Perf_Ticker = ticker,
                        Performance_pct = Fin ((final - first) / first * 100)\<rparr>))
       \<and> (length data < 2 \<longrightarrow>
            perf_entry_of ticker (get_stock_data ticker ''1mo'') = None
          \<and> perf_loop get_stock_data ((name, ticker) # rest) acc
              = perf_loop get_stock_data rest acc)
       \<and> (length data = 1 \<longrightarrow> (\<exists>price change. day_change data = Inr (price, change)))
       \<and> perf [Fin 50, Fin 55, Fin 60] = Inr (Fin 20)"
proof (intro conjI impI allI)
  assume "2 \<le> length data"
  then have two: "1 < length data" by simp
  show "perf_entry_of ticker (get_stock_data ticker ''1mo'') =
          Some \<lparr>Perf_Ticker = ticker,
                Performance_pct = fmul (fdiv (fsub (last data) (hd data)) (hd data)) (Fin 100)\<rparr>"
    using two by (simp add: assms(1) perf_entry_of_eq [OF assms(2)])
  fix first final
  assume "hd data = Fin first \<and> last data = Fin final \<and> first \<noteq> 0"
  then show "perf_entry_of ticker (get_stock_data ticker ''1mo'') =
          Some \<lparr>Perf_Ticker = ticker, Performance_pct = Fin ((final - first) / first * 100)\<rparr>"
    using two by (simp add: assms(1) perf_entry_of_eq [OF assms(2)] fsub_def)
next
  assume "length data < 2"
  then have none: "perf_entry_of ticker (get_stock_data ticker ''1mo'') = None"
    by (simp add: assms(1) perf_entry_of_eq [OF assms(2)])
  then show "perf_entry_of ticker (get_stock_data ticker ''1mo'') = None" .
  show "perf_loop get_stock_data ((name, ticker) # rest) acc = perf_loop get_stock_data rest acc"
    using none by simp
next
  assume "length data = 1"
  then have "data \<noteq> []" by auto
  then show "\<exists>price change. day_change data = Inr (price, change)"
    by (simp add: day_change_eq)
next
  show "perf [Fin 50, Fin 55, Fin 60] = Inr (Fin 20)"
    by (simp add: perf_eq fsub_def)
qed

theorem perf_entry_value_witness:
  "example_fetch ''TSLA'' ''1mo'' = Fetched (example_frame [Fin 50, Fin 55, Fin 60])
   \<and> getitem (example_frame [Fin 50, Fin 55, Fin 60]) ''Close'' = Inr [Fin 50, Fin 55, Fin 60]
   \<and> perf_entry_of ''TSLA'' (example_fetch ''TSLA'' ''1mo'')
       = Some \<lparr>Perf_Ticker = ''TSLA'', Performance_pct = Fin 20\<rparr>
   \<and> example_fetch ''NBIS'' ''1mo'' = Fetched (example_frame [Fin 0])
   \<and> perf_entry_of ''NBIS'' (example_fetch ''NBIS'' ''1mo'') = None"
proof -
  have f3: "example_fetch ''TSLA'' ''1mo'' = Fetched (example_frame [Fin 50, Fin 55, Fin 60])"
    by simp
  have c3: "getitem (example_frame [Fin 50, Fin 55, Fin 60]) ''Close''
            = Inr [Fin 50, Fin 55, Fin 60]"
    by (simp add: getitem_def example_frame_def)
  have f1: "example_fetch ''NBIS'' ''1mo'' = Fetched (example_frame [Fin 0])"
    by simp
  have c1: "getitem (example_frame [Fin 0]) ''Close'' = Inr [Fin 0]"
    by (simp add: getitem_def example_frame_def)
  have r3: "perf_entry_of ''TSLA'' (example_fetch ''TSLA'' ''1mo'')
       = Some \<lparr>Perf_Ticker = ''TSLA'', Performance_pct = Fin 20\<rparr>"
    using perf_entry_value [where get_stock_data = example_fetch and ticker = "''TSLA''",
        OF f3 c3, THEN conjunct1] by (simp add: fsub_def)
  have r1: "perf_entry_of ''NBIS'' (example_fetch ''NBIS'' ''1mo'') = None"
    using perf_entry_value [where get_stock_data = example_fetch and ticker = "''NBIS''",
        OF f1 c1, THEN conjunct2, THEN conjunct1] by simp
  show ?thesis using f3 c3 r3 f1 r1 by (intro conjI)
qed

text \<open>
  Claim C9. The tickers of the performance list are exactly the watchlist tickers whose
  one-month Close series has at least two points, in watchlist order: a subsequence of the
  watchlist's tickers.
\<close>

theorem perf_subsequence:
  "map Perf_Ticker (perf_data get_stock_data watchlist) =
     map snd (filter (\<lambda>(name, ticker). 2 \<le> close_points (get_stock_data ticker ''1mo''))
                watchlist)
   \<and> subseq (map Perf_Ticker (perf_data get_stock_data watchlist)) (map snd watchlist)"
proof -
  have eq: "map Perf_Ticker (perf_data get_stock_data watchlist) =
     map snd (filter (\<lambda>(name, ticker). 2 \<le> close_points (get_stock_data ticker ''1mo''))
                watchlist)"
    by (simp add: perf_data_def perf_loop_acc perf_tickers_filter)
  have "subseq (filter (\<lambda>(name, ticker). 2 \<le> close_points (get_stock_data ticker ''1mo''))
                  watchlist) watchlist"
    by (rule subseq_filter_left)
  then have "subseq (map snd (filter (\<lambda>(name, ticker).
                 2 \<le> close_points (get_stock_data ticker ''1mo'')) watchlist))
               (map snd watchlist)"
    by (rule subseq_map)
  with eq show ?thesis by simp
qed


theorem perf_subsequence_witness:
  "map Perf_Ticker (perf_data example_fetch tickers) = [''APLD'', ''TSLA'', ''GOOGL'']
   \<and> subseq [''APLD'', ''TSLA'', ''GOOGL''] (map snd tickers)"
proof -
  have kept: "map snd (filter (\<lambda>(name, ticker).
                  2 \<le> close_points (example_fetch ticker ''1mo'')) tickers)
        = [''APLD'', ''TSLA'', ''GOOGL'']"
    by (simp add: tickers_def close_points_def getitem_def example_frame_def)
  note sub = perf_subsequence [of example_fetch tickers]
  have eq: "map Perf_Ticker (perf_data example_fetch tickers) = [''APLD'', ''TSLA'', ''GOOGL'']"
    by (rule trans [OF sub [THEN conjunct1] kept])
  have "subseq (map Perf_Ticker (perf_data example_fetch tickers)) (map snd tickers)"
    by (rule sub [THEN conjunct2])
  then have "subseq [''APLD'', ''TSLA'', ''GOOGL''] (map snd tickers)"
    unfolding eq .
  with eq show ?thesis by (intro conjI)
qed

section \<open>Watchlist table\<close>

lemma portfolio_loop_acc:
  "portfolio_loop strftime get_stock_data watchlist acc =
   acc @ map (\<lambda>(name, ticker). snapshot_of strftime name ticker (get_stock_data ticker ''1d''))
           watchlist"
proof (induction watchlist arbitrary: acc)
  case Nil
  then show ?case by simp
next
  case (Cons entry watchlist)
  obtain name ticker where entry: "entry = (name, ticker)" by (cases entry)
  show ?case by (simp add: entry Cons.IH)
qed

lemma portfolio_data_map:
  "portfolio_data strftime get_stock_data watchlist =
   map (\<lambda>(name, ticker). snapshot_of strftime name ticker (get_stock_data ticker ''1d''))
     watchlist"
  by (simp add: portfolio_data_def portfolio_loop_acc)

lemma snapshot_of_keys:
  "Name (snapshot_of strftime name ticker fetched) = name
   \<and> Ticker (snapshot_of strftime name ticker fetched) = ticker"
  by (auto simp: snapshot_of_def unavailable_def split: outcome.splits sum.splits prod.splits)

lemma snapshot_of_no_data:
  assumes "fetched = Raised
         \<or> (\<exists>df. fetched = Fetched df \<and> (frame_empty df \<or> getitem df ''Close'' = Inr []))"
  shows "snapshot_of strftime name ticker fetched = unavailable name ticker"
proof (cases fetched)
  case Raised
  then show ?thesis by (simp add: snapshot_of_def)
next
  case (Fetched df)
  with assms have df: "frame_empty df \<or> getitem df ''Close'' = Inr []" by simp
  show ?thesis
  proof (cases "getitem df ''Close''")
    case (Inl e)
    then show ?thesis using Fetched by (simp add: snapshot_of_def)
  next
    case (Inr data)
    show ?thesis
    proof (cases "data = []")
      case True
      then show ?thesis using Fetched Inr by (simp add: snapshot_of_def)
    next
      case False
      with df Inr have "frame_empty df" by simp
      moreover have "cols df \<noteq> []" using Inr by (auto simp: getitem_def)
      ultimately have "index df = []" by (simp add: frame_empty_def)
      then show ?thesis using Fetched Inr False
        by (simp add: snapshot_of_def iloc_empty day_change_eq)
    qed
  qed
qed

text \<open>
  Claim C6. For every watchlist and every behaviour of the provider, the table has one row
  per watchlist entry, in watchlist order, carrying that entry's name and ticker; an entry
  whose fetch raised or returned an empty frame or an empty Close series has the row of
  three \<^verbatim>\<open>'N/A'\<close> cells; and the rows of all other entries are those of the watchlist
  without that entry.
\<close>

theorem portfolio_isolation:
  "length (portfolio_data strftime get_stock_data watchlist) = length watchlist
   \<and> map (\<lambda>row. (Name row, Ticker row)) (portfolio_data strftime get_stock_data watchlist)
       = watchlist
   \<and> (\<forall>i. i < length watchlist
          \<and> (get_stock_data (snd (watchlist ! i)) ''1d'' = Raised
             \<or> (\<exists>df. get_stock_data (snd (watchlist ! i)) ''1d'' = Fetched df
                     \<and> (frame_empty df \<or> getitem df ''Close'' = Inr [])))
        \<longrightarrow> portfolio_data strftime get_stock_data watchlist ! i
              = \<lparr>Name = fst (watchlist ! i), Ticker = snd (watchlist ! i), Price = Str ''N/A'',
                 Change_pct = Str ''N/A'', Last_Updated = Str ''N/A''\<rparr>
            \<and> portfolio_data strftime get_stock_data (take i watchlist @ drop (Suc i) watchlist)
              = take i (portfolio_data strftime get_stock_data watchlist)
                @ drop (Suc i) (portfolio_data strftime get_stock_data watchlist))"
proof (intro conjI allI impI)
  show "length (portfolio_data strftime get_stock_data watchlist) = length watchlist"
    by (simp add: portfolio_data_map)
  show "map (\<lambda>row. (Name row, Ticker row)) (portfolio_data strftime get_stock_data watchlist)
        = watchlist"
  proof -
    have "map (\<lambda>row. (Name row, Ticker row)) (portfolio_data strftime get_stock_data watchlist)
          = map (\<lambda>entry. entry) watchlist"
      unfolding portfolio_data_map map_map
      by (rule map_cong) (auto simp: snapshot_of_keys)
    then show ?thesis by simp
  qed
next
  fix i
  assume h: "i < length watchlist
          \<and> (get_stock_data (snd (watchlist ! i)) ''1d'' = Raised
             \<or> (\<exists>df. get_stock_data (snd (watchlist ! i)) ''1d'' = Fetched df
                     \<and> (frame_empty df \<or> getitem df ''Close'' = Inr [])))"
  obtain name ticker where entry: "watchlist ! i = (name, ticker)"
    by (cases "watchlist ! i")
  have "portfolio_data strftime get_stock_data watchlist ! i
        = snapshot_of strftime name ticker (get_stock_data ticker ''1d'')"
    using h entry by (simp add: portfolio_data_map)
  also have "\<dots> = unavailable name ticker"
    by (rule snapshot_of_no_data) (use h entry in simp)
  finally show "portfolio_data strftime get_stock_data watchlist ! i
              = \<lparr>Name = fst (watchlist ! i), Ticker = snd (watchlist ! i), Price = Str ''N/A'',
                 Change_pct = Str ''N/A'', Last_Updated = Str ''N/A''\<rparr>"
    by (simp add: entry unavailable_def)
  show "portfolio_data strftime get_stock_data (take i watchlist @ drop (Suc i) watchlist)
              = take i (portfolio_data strftime get_stock_data watchlist)
                @ drop (Suc i) (portfolio_data strftime get_stock_data watchlist)"
    by (simp add: portfolio_data_map take_map drop_map)
qed

theorem portfolio_isolation_witness:
  "(1::nat) < length [(''Applied Digital'', ''APLD''), (''Symbotic'', ''SYM''), (''Tesla'', ''TSLA'')]
   \<and> example_fetch ''SYM'' ''1d'' = Raised
   \<and> portfolio_data example_strftime example_fetch
        [(''Applied Digital'', ''APLD''), (''Symbotic'', ''SYM''), (''Tesla'', ''TSLA'')] ! 1
      = \<lparr>Name = ''Symbotic'', Ticker = ''SYM'', Price = Str ''N/A'', Change_pct = Str ''N/A'',
         Last_Updated = Str ''N/A''\<rparr>
   \<and> portfolio_data example_strftime example_fetch [(''Applied Digital'', ''APLD''), (''Tesla'', ''TSLA'')]
      = [\<lparr>Name = ''Applied Digital'', Ticker = ''APLD'', Price = Num (Fin 110), Change_pct = Num (Fin 10),
          Last_Updated = Str ''2024-01-03''\<rparr>,
         \<lparr>Name = ''Tesla'', Ticker = ''TSLA'', Price = Num (Fin 60),
          Change_pct = Num (Fin (100 / 11)), Last_Updated = Str ''2024-01-03''\<rparr>]
   \<and> length (portfolio_data example_strftime example_fetch
        [(''Applied Digital'', ''APLD''), (''Symbotic'', ''SYM''), (''Tesla'', ''TSLA'')]) = 3"
proof -
  have all: "portfolio_data example_strftime example_fetch
        [(''Applied Digital'', ''APLD''), (''Symbotic'', ''SYM''), (''Tesla'', ''TSLA'')]
      = [\<lparr>Name = ''Applied Digital'', Ticker = ''APLD'', Price = Num (Fin 110), Change_pct = Num (Fin 10),
          Last_Updated = Str ''2024-01-03''\<rparr>,
         \<lparr>Name = ''Symbotic'', Ticker = ''SYM'', Price = Str ''N/A'', Change_pct = Str ''N/A'',
          Last_Updated = Str ''N/A''\<rparr>,
         \<lparr>Name = ''Tesla'', Ticker = ''TSLA'', Price = Num (Fin 60),
          Change_pct = Num (Fin (100 / 11)), Last_Updated = Str ''2024-01-03''\<rparr>]"
    by code_simp
  have hyp: "(1::nat) < length [(''Applied Digital'', ''APLD''), (''Symbotic'', ''SYM''), (''Tesla'', ''TSLA'')]
      \<and> (example_fetch (snd ([(''Applied Digital'', ''APLD''), (''Symbotic'', ''SYM''), (''Tesla'', ''TSLA'')] ! 1))
            ''1d'' = Raised
         \<or> (\<exists>df. example_fetch
                    (snd ([(''Applied Digital'', ''APLD''), (''Symbotic'', ''SYM''), (''Tesla'', ''TSLA'')] ! 1))
                    ''1d'' = Fetched df
                 \<and> (frame_empty df \<or> getitem df ''Close'' = Inr [])))"
    by simp
  note iso = portfolio_isolation [of example_strftime example_fetch
      "[(''Applied Digital'', ''APLD''), (''Symbotic'', ''SYM''), (''Tesla'', ''TSLA'')]",
      THEN conjunct2, THEN conjunct2, rule_format, OF hyp]
  have row: "portfolio_data example_strftime example_fetch
        [(''Applied Digital'', ''APLD''), (''Symbotic'', ''SYM''), (''Tesla'', ''TSLA'')] ! 1
      = \<lparr>Name = ''Symbotic'', Ticker = ''SYM'', Price = Str ''N/A'', Change_pct = Str ''N/A'',
         Last_Updated = Str ''N/A''\<rparr>"
    using iso [THEN conjunct1] by simp
  have rest: "portfolio_data example_strftime example_fetch
        [(''Applied Digital'', ''APLD''), (''Tesla'', ''TSLA'')]
      = [\<lparr>Name = ''Applied Digital'', Ticker = ''APLD'', Price = Num (Fin 110), Change_pct = Num (Fin 10),
          Last_Updated = Str ''2024-01-03''\<rparr>,
         \<lparr>Name = ''Tesla'', Ticker = ''TSLA'', Price = Num (Fin 60),
          Change_pct = Num (Fin (100 / 11)), Last_Updated = Str ''2024-01-03''\<rparr>]"
    using iso [THEN conjunct2] unfolding all by simp
  show ?thesis using row rest all by simp
qed


lemma zero_divisor_not_finite:
  "fmul (fdiv (fsub x (Fin 0)) (Fin 0)) (Fin 100) = NaN
   \<or> fmul (fdiv (fsub x (Fin 0)) (Fin 0)) (Fin 100) = PInf
   \<or> fmul (fdiv (fsub x (Fin 0)) (Fin 0)) (Fin 100) = NInf"
  by (cases x) (simp_all add: fsub_def)

text \<open>
  Claim C10. When the fetch succeeded with a non-empty Close series (aligned with the
  index) and the close used as divisor is zero, be it the second to last close or the only
  close, the change is NaN or an infinity, it is stored as a number in the row next to the
  price and the date, and the row is not the \<^verbatim>\<open>'N/A'\<close> row.
\<close>

theorem zero_divisor_change:
  assumes "getitem df ''Close'' = Inr data" and "data \<noteq> []"
    and "length (index df) = length data"
    and "(if 1 < length data then data ! (length data - 2) else last data) = Fin 0"
  shows "\<exists>change. (change = NaN \<or> change = PInf \<or> change = NInf)
           \<and> \<not> is_fin change
           \<and> day_change data = Inr (last data, change)
           \<and> snapshot_of strftime name ticker (Fetched df) =
               \<lparr>Name = name, Ticker = ticker, Price = Num (last data), Change_pct = Num change,
                Last_Updated = Str (strftime (last (index df)))\<rparr>
           \<and> snapshot_of strftime name ticker (Fetched df) \<noteq> unavailable name ticker"
proof -
  let ?change = "fmul (fdiv (fsub (last data) (Fin 0)) (Fin 0)) (Fin 100)"
  have kind: "?change = NaN \<or> ?change = PInf \<or> ?change = NInf"
    by (rule zero_divisor_not_finite)
  then have nonfin: "\<not> is_fin ?change" by auto
  have dc: "day_change data = Inr (last data, ?change)"
    using assms(4) by (simp only: day_change_eq [OF assms(2)])
  have "index df \<noteq> []" using assms(2,3) by auto
  then have stamp: "iloc (index df) (- 1) = Inr (last (index df))"
    by (rule iloc_last)
  have snap: "snapshot_of strftime name ticker (Fetched df) =
               \<lparr>Name = name, Ticker = ticker, Price = Num (last data), Change_pct = Num ?change,
                Last_Updated = Str (strftime (last (index df)))\<rparr>"
    using assms(1,2) dc stamp by (simp add: snapshot_of_def)
  have "snapshot_of strftime name ticker (Fetched df) \<noteq> unavailable name ticker"
    unfolding snap by (simp add: unavailable_def)
  with kind nonfin dc snap show ?thesis by blast
qed

theorem zero_divisor_change_witness:
  "getitem (example_frame [Fin 0, Fin 5]) ''Close'' = Inr [Fin 0, Fin 5]
   \<and> snapshot_of example_strftime ''Google'' ''GOOGL'' (Fetched (example_frame [Fin 0, Fin 5])) =
       \<lparr>Name = ''Google'', Ticker = ''GOOGL'', Price = Num (Fin 5), Change_pct = Num PInf,
        Last_Updated = Str ''2024-01-03''\<rparr>
   \<and> snapshot_of example_strftime ''Nebius Group N.V'' ''NBIS'' (Fetched (example_frame [Fin 0])) =
       \<lparr>Name = ''Nebius Group N.V'', Ticker = ''NBIS'', Price = Num (Fin 0), Change_pct = Num NaN,
        Last_Updated = Str ''2024-01-02''\<rparr>"
proof -
  have c2: "getitem (example_frame [Fin 0, Fin 5]) ''Close'' = Inr [Fin 0, Fin 5]"
    by (simp add: getitem_def example_frame_def)
  have c1: "getitem (example_frame [Fin 0]) ''Close'' = Inr [Fin 0]"
    by (simp add: getitem_def example_frame_def)
  have d2: "day_change [Fin 0, Fin 5] = Inr (Fin 5, PInf)"
    by (simp add: day_change_eq fsub_def)
  have d1: "day_change [Fin 0] = Inr (Fin 0, NaN)"
    by (simp add: day_change_eq fsub_def)
  from zero_divisor_change [OF c2, of example_strftime "''Google''" "''GOOGL''"]
  obtain change2 where
    "day_change [Fin 0, Fin 5] = Inr (last [Fin 0, Fin 5], change2)"
    and s2: "snapshot_of example_strftime ''Google'' ''GOOGL'' (Fetched (example_frame [Fin 0, Fin 5])) =
       \<lparr>Name = ''Google'', Ticker = ''GOOGL'', Price = Num (last [Fin 0, Fin 5]),
        Change_pct = Num change2,
        Last_Updated = Str (example_strftime (last (index (example_frame [Fin 0, Fin 5]))))\<rparr>"
    by (auto simp: example_frame_def)
  then have "change2 = PInf" using d2 by simp
  with s2 have r2: "snapshot_of example_strftime ''Google'' ''GOOGL''
        (Fetched (example_frame [Fin 0, Fin 5])) =
       \<lparr>Name = ''Google'', Ticker = ''GOOGL'', Price = Num (Fin 5), Change_pct = Num PInf,
        Last_Updated = Str ''2024-01-03''\<rparr>"
    by (simp add: example_frame_def)
  from zero_divisor_change [OF c1, of example_strftime "''Nebius Group N.V''" "''NBIS''"]
  obtain change1 where
    "day_change [Fin 0] = Inr (last [Fin 0], change1)"
    and s1: "snapshot_of example_strftime ''Nebius Group N.V'' ''NBIS'' (Fetched (example_frame [Fin 0])) =
       \<lparr>Name = ''Nebius Group N.V'', Ticker = ''NBIS'', Price = Num (last [Fin 0]),
        Change_pct = Num change1,
        Last_Updated = Str (example_strftime (last (index (example_frame [Fin 0]))))\<rparr>"
    by (auto simp: example_frame_def)
  then have "change1 = NaN" using d1 by simp
  with s1 have r1: "snapshot_of example_strftime ''Nebius Group N.V'' ''NBIS''
        (Fetched (example_frame [Fin 0])) =
       \<lparr>Name = ''Nebius Group N.V'', Ticker = ''NBIS'', Price = Num (Fin 0), Change_pct = Num NaN,
        Last_Updated = Str ''2024-01-02''\<rparr>"
    by (simp add: example_frame_def)
  show ?thesis using c2 r2 r1 by (intro conjI)
qed

section \<open>The indicator run on the frame\<close>

lemma getitem_setitem:
  "getitem (setitem df c vs) c' = (if c' = c then Inr vs else getitem df c')"
  by (simp add: getitem_def setitem_def update_conv')

lemma add_indicators_eq:
  assumes "getitem df ''Close'' = Inr close"
  shows "add_indicators df =
         Inr (setitem (setitem (setitem df ''SMA_20'' (rolling_mean 20 close))
                         ''SMA_50'' (rolling_mean 50 close))
                ''RSI'' (rsi close))"
  using assms by (simp add: add_indicators_def getitem_setitem Let_def)

section \<open>Empty and all-null input\<close>

lemma rolling_mean_at_all_nan:
  assumes "i < n"
  shows "rolling_mean_at w (replicate n NaN) i = NaN"
proof (cases "Suc i < w \<or> w = 0")
  case True
  then show ?thesis by (simp add: rolling_mean_at_def)
next
  case False
  then have "0 < min w (n - (Suc i - w))" using assms by auto
  then have "\<not> list_all is_fin (window_at w (replicate n NaN) i)"
    by (simp add: window_at_def list_all_iff)
  then show ?thesis by (simp add: rolling_mean_at_def)
qed

lemma rolling_mean_all_nan: "rolling_mean w (replicate n NaN) = replicate n NaN"
  by (rule nth_equalityI) (simp_all add: rolling_mean_def rolling_mean_at_all_nan)

lemma rolling_mean_at_zeros:
  "rolling_mean_at w (replicate n (Fin 0)) i = NaN
   \<or> rolling_mean_at w (replicate n (Fin 0)) i = Fin 0"
  by (simp add: rolling_mean_at_def window_at_def mean_def sum_list_replicate)

lemma up_moves_all_nan: "up_moves (replicate n NaN) = replicate n (Fin 0)"
proof (rule nth_equalityI)
  show "length (up_moves (replicate n NaN)) = length (replicate n (Fin 0))"
    by (simp add: length_up_moves)
next
  fix i assume "i < length (up_moves (replicate n NaN))"
  then have i: "i < n" by (simp add: length_up_moves)
  then have "delta (replicate n NaN) ! i = NaN"
    by (simp add: delta_def nth_diff fsub_def)
  then show "up_moves (replicate n NaN) ! i = replicate n (Fin 0) ! i"
    using i by (simp add: nth_up_moves fgt_def)
qed

lemma down_moves_all_nan: "down_moves (replicate n NaN) = replicate n (Fin 0)"
proof (rule nth_equalityI)
  show "length (down_moves (replicate n NaN)) = length (replicate n (Fin 0))"
    by (simp add: length_down_moves)
next
  fix i assume "i < length (down_moves (replicate n NaN))"
  then have i: "i < n" by (simp add: length_down_moves)
  then have "delta (replicate n NaN) ! i = NaN"
    by (simp add: delta_def nth_diff fsub_def)
  then show "down_moves (replicate n NaN) ! i = replicate n (Fin 0) ! i"
    using i by (simp add: nth_down_moves)
qed

lemma rsi_all_nan: "rsi (replicate n NaN) = replicate n NaN"
proof (rule nth_equalityI)
  show "length (rsi (replicate n NaN)) = length (replicate n NaN)"
    by (simp add: length_rsi)
next
  fix i assume "i < length (rsi (replicate n NaN))"
  then have i: "i < length (replicate n NaN)" by (simp add: length_rsi)
  have g: "gain (replicate n NaN) ! i = NaN \<or> gain (replicate n NaN) ! i = Fin 0"
    unfolding nth_gain [OF i] up_moves_all_nan by (rule rolling_mean_at_zeros)
  have l: "loss (replicate n NaN) ! i = NaN \<or> loss (replicate n NaN) ! i = Fin 0"
    unfolding nth_loss [OF i] down_moves_all_nan by (rule rolling_mean_at_zeros)
  have "fdiv (gain (replicate n NaN) ! i) (loss (replicate n NaN) ! i) = NaN"
    using g l by auto
  then show "rsi (replicate n NaN) ! i = replicate n NaN ! i"
    using i by (simp add: nth_rsi fsub_def)
qed

lemma price_chart_run:
  assumes "\<not> frame_empty df" and "getitem df ''Close'' = Inr close"
  shows "price_chart ticker (Fetched df) =
         Chart (setitem (setitem (setitem df ''SMA_20'' (rolling_mean 20 close))
                           ''SMA_50'' (rolling_mean 50 close))
                  ''RSI'' (rsi close))"
  using assms by (simp add: price_chart_def add_indicators_eq)

text \<open>
  Claim C7, as amended. For an empty frame the section skips the indicators and the chart
  and shows the "No historical data available" warning (and the indicator series of an empty
  series are empty). For a non-empty frame whose closes are all NaN nothing is raised, each
  of the three indicator series has the length of the input and holds only NaN, and the
  section draws the chart from them: no warning is shown.
\<close>

theorem price_chart_no_data:
  "(frame_empty df \<longrightarrow>
      price_chart ticker (Fetched df) =
        Warning (''No historical data available for '' @ ticker
                 @ ''. The stock may be delisted or suspended.''))
   \<and> rolling_mean 20 [] = [] \<and> rolling_mean 50 [] = [] \<and> rsi [] = []
   \<and> (index df \<noteq> [] \<and> getitem df ''Close'' = Inr (replicate (length (index df)) NaN) \<longrightarrow>
        (\<exists>h. price_chart ticker (Fetched df) = Chart h
            \<and> getitem h ''SMA_20'' = Inr (replicate (length (index df)) NaN)
            \<and> getitem h ''SMA_50'' = Inr (replicate (length (index df)) NaN)
            \<and> getitem h ''RSI'' = Inr (replicate (length (index df)) NaN)))"
proof (intro conjI impI)
  assume "frame_empty df"
  then show "price_chart ticker (Fetched df) =
        Warning (''No historical data available for '' @ ticker
                 @ ''. The stock may be delisted or suspended.'')"
    by (simp add: price_chart_def)
next
  show "rolling_mean 20 [] = []" and "rolling_mean 50 [] = []"
    by (simp_all add: rolling_mean_def)
  show "rsi [] = []"
    by (simp add: rsi_def rs_def gain_def loss_def rolling_mean_def up_moves_def
        down_moves_def series_where_def delta_def diff_def)
next
  assume a: "index df \<noteq> [] \<and> getitem df ''Close'' = Inr (replicate (length (index df)) NaN)"
  then have "cols df \<noteq> []" by (auto simp: getitem_def)
  with a have ne: "\<not> frame_empty df" by (simp add: frame_empty_def)
  show "\<exists>h. price_chart ticker (Fetched df) = Chart h
            \<and> getitem h ''SMA_20'' = Inr (replicate (length (index df)) NaN)
            \<and> getitem h ''SMA_50'' = Inr (replicate (length (index df)) NaN)
            \<and> getitem h ''RSI'' = Inr (replicate (length (index df)) NaN)"
    using a by (simp add: price_chart_run [OF ne] getitem_setitem rolling_mean_all_nan
        rsi_all_nan)
qed

theorem price_chart_no_data_witness:
  "frame_empty (example_frame [])
   \<and> price_chart ''TSLA'' (Fetched (example_frame [])) =
       Warning ''No historical data available for TSLA. The stock may be delisted or suspended.''
   \<and> index (example_frame [NaN, NaN]) \<noteq> []
   \<and> getitem (example_frame [NaN, NaN]) ''Close''
       = Inr (replicate (length (index (example_frame [NaN, NaN]))) NaN)
   \<and> (\<exists>h. price_chart ''TSLA'' (Fetched (example_frame [NaN, NaN])) = Chart h
          \<and> getitem h ''RSI'' = Inr [NaN, NaN])"
proof -
  have e: "frame_empty (example_frame [])"
    by (simp add: frame_empty_def example_frame_def)
  have w: "price_chart ''TSLA'' (Fetched (example_frame [])) =
       Warning ''No historical data available for TSLA. The stock may be delisted or suspended.''"
    using price_chart_no_data [of "example_frame []" "''TSLA''", THEN conjunct1] e by simp
  have i: "index (example_frame [NaN, NaN]) \<noteq> []"
    by (simp add: example_frame_def)
  have c: "getitem (example_frame [NaN, NaN]) ''Close''
       = Inr (replicate (length (index (example_frame [NaN, NaN]))) NaN)"
    by (simp add: getitem_def example_frame_def)
  have len: "replicate (length (index (example_frame [NaN, NaN]))) NaN = [NaN, NaN]"
    by (simp add: example_frame_def)
  have "\<exists>h. price_chart ''TSLA'' (Fetched (example_frame [NaN, NaN])) = Chart h
          \<and> getitem h ''RSI'' = Inr [NaN, NaN]"
    using price_chart_no_data [of "example_frame [NaN, NaN]" "''TSLA''",
        THEN conjunct2, THEN conjunct2, THEN conjunct2, THEN conjunct2] i c
    unfolding len by blast
  with e w i c show ?thesis by (intro conjI)
qed

text \<open>
  Against claim C7 as stated: for one bar with a NaN close the section does not show a
  warning; it draws the chart, and the indicator series are not empty.
\<close>

theorem all_null_chart_counterexample:
  "price_chart ''APLD'' (Fetched \<lparr>index = [0 :: nat], cols = [(''Close'', [NaN])]\<rparr>) =
     Chart \<lparr>index = [0],
            cols = [(''Close'', [NaN]), (''SMA_20'', [NaN]), (''SMA_50'', [NaN]),
                    (''RSI'', [NaN])]\<rparr>"
  by code_simp

end
